theory Spec2Isabelle
  imports Complex_Main
begin

section \<open>JavaScript values\<close>

text \<open>
  The values that travel through the handlers of \<^verbatim>\<open>src/server/index.js\<close> and through
  the state of \<^verbatim>\<open>src/client/src/App.jsx\<close>. Objects keep their properties in
  insertion order. Numbers are carried as reals: the only numbers the program computes
  (an array length plus one, the counter, a timestamp) are integers, and the numbers of
  a request body are passed on without being inspected.
\<close>

datatype jsval =
    JUndefined
  | JNull
  | JBool bool
  | JNum real
  | JStr string
  | JArr "jsval list"
  | JObj "(string \<times> jsval) list"

text \<open>Reading a property \<^verbatim>\<open>o.k\<close>: \<^verbatim>\<open>undefined\<close> when the object has no such property.\<close>

definition get_prop :: "jsval \<Rightarrow> string \<Rightarrow> jsval" where
  "get_prop v k =
     (case v of
        JObj kvs \<Rightarrow> (case map_of kvs k of Some x \<Rightarrow> x | None \<Rightarrow> JUndefined)
      | _ \<Rightarrow> JUndefined)"

text \<open>
  The result of \<^verbatim>\<open>ToNumber\<close> on a string, as far as a comparison with an integer can
  see it: an integer, or any other number value (a fraction, an infinity, NaN), none
  of which equals an integer.
\<close>

datatype jsnumber = Integer int | NonInteger

subsection \<open>Decimal text of integers\<close>

definition digit_char :: "nat \<Rightarrow> char" where
  "digit_char d = ''0123456789'' ! d"

definition digit_val :: "char \<Rightarrow> nat option" where
  "digit_val c = map_of (zip ''0123456789'' [0, 1, 2, 3, 4, 5, 6, 7, 8, 9]) c"

text \<open>\<^verbatim>\<open>Number::toString\<close> on a non-negative integer below \<open>10^21\<close>: its decimal digits.\<close>

function dec_digits :: "nat \<Rightarrow> string" where
  "dec_digits n =
     (if n < 10 then [digit_char n] else dec_digits (n div 10) @ [digit_char (n mod 10)])"
  by pat_completeness auto
termination
  by (relation "measure (\<lambda>n. n)") auto

text \<open>The text a template literal \<^verbatim>\<open>`${n}`\<close> gives for an integer \<open>n\<close>.\<close>

definition number_to_string :: "int \<Rightarrow> string" where
  "number_to_string n =
     (if n < 0 then CHR ''-'' # dec_digits (nat (- n)) else dec_digits (nat n))"

text \<open>The mathematical value of a run of decimal digits, read left to right.\<close>

fun digits_value :: "nat \<Rightarrow> string \<Rightarrow> nat option" where
  "digits_value acc [] = Some acc"
| "digits_value acc (c # cs) =
     (case digit_val c of None \<Rightarrow> None | Some d \<Rightarrow> digits_value (10 * acc + d) cs)"

definition StrDecimalDigits :: "string \<Rightarrow> nat option" where
  "StrDecimalDigits s = (if s = [] then None else digits_value 0 s)"

text \<open>
  The signed decimal integers of the \<^verbatim>\<open>StringNumericLiteral\<close> grammar: an optional
  sign and at least one digit. The value of \<^verbatim>\<open>-0\<close> is negative zero, which equals zero.
\<close>

definition StrIntegerLiteral :: "string \<Rightarrow> int option" where
  "StrIntegerLiteral s =
     (case s of
        [] \<Rightarrow> None
      | c # cs \<Rightarrow>
          if c = CHR ''-'' then map_option (\<lambda>v. - int v) (StrDecimalDigits cs)
          else if c = CHR ''+'' then map_option int (StrDecimalDigits cs)
          else map_option int (StrDecimalDigits s))"

text \<open>
  The conversion of a string to a number rounds to a double, which is outside this
  development, so the handlers take the conversion as a parameter \<open>tn\<close>. What is
  known of it: on a signed decimal integer of magnitude at most \<open>2^53\<close> (every such
  integer is a double) it yields that integer.
\<close>

definition conforms :: "(string \<Rightarrow> jsnumber) \<Rightarrow> bool" where
  "conforms tn =
     (\<forall>s n. StrIntegerLiteral s = Some n \<and> \<bar>n\<bar> \<le> 2 ^ 53 \<longrightarrow> tn s = Integer n)"

text \<open>A conversion that knows the signed decimal integers only, for evaluation.\<close>

definition ToNumber_integers :: "string \<Rightarrow> jsnumber" where
  "ToNumber_integers s =
     (case StrIntegerLiteral s of
        Some n \<Rightarrow> if \<bar>n\<bar> \<le> 2 ^ 53 then Integer n else NonInteger
      | None \<Rightarrow> NonInteger)"

text \<open>
  \<^verbatim>\<open>x == y\<close> for a number \<open>x\<close> that is an integer and a string \<open>y\<close>: the string is
  converted to a number and the numbers are compared. \<^verbatim>\<open>x === y\<close> for the same
  operands: the types differ, so the result is false.
\<close>

definition loose_eq :: "(string \<Rightarrow> jsnumber) \<Rightarrow> int \<Rightarrow> string \<Rightarrow> bool" where
  "loose_eq tn x y = (tn y = Integer x)"

definition strict_eq :: "int \<Rightarrow> string \<Rightarrow> bool" where
  "strict_eq x y = False"

section \<open>The API service (src/server/index.js)\<close>

text \<open>
  A user record. The source's field \<^verbatim>\<open>id\<close> is written \<open>id'\<close>. The fields copied from
  a request body hold whatever the body held, \<^verbatim>\<open>undefined\<close> included.
\<close>

record user =
  id' :: int
  name :: jsval
  email :: jsval
  password :: jsval

text \<open>The object \<^verbatim>\<open>res.json\<close> is handed for a user.\<close>

definition user_obj :: "user \<Rightarrow> jsval" where
  "user_obj u =
     JObj [(''id'', JNum (of_int (id' u))), (''name'', name u),
           (''email'', email u), (''password'', password u)]"

text \<open>The module-level array \<^verbatim>\<open>users\<close> when the server starts (lines 9 to 12).\<close>

definition initial_users :: "user list" where
  "initial_users =
     [\<lparr>id' = 1, name = JStr ''John'', email = JStr ''john@test.com'',
       password = JStr ''password123''\<rparr>,
      \<lparr>id' = 2, name = JStr ''Jane'', email = JStr ''jane@test.com'',
       password = JStr ''admin''\<rparr>]"

text \<open>
  What a handler does with \<^verbatim>\<open>res\<close>: \<^verbatim>\<open>res.json v\<close> and \<^verbatim>\<open>res.send data\<close>, with the
  status set before (200 unless \<^verbatim>\<open>res.status\<close> was called). A handler that throws, or
  whose promise rejects, before any call on \<^verbatim>\<open>res\<close> has produced no response.
\<close>

datatype payload = Json jsval | Raw string

record response =
  status :: nat
  body :: payload

datatype outcome = Responded response | Rejected string

definition json :: "jsval \<Rightarrow> outcome" where
  "json v = Responded \<lparr>status = 200, body = Json v\<rparr>"

text \<open>\<^verbatim>\<open>GET /api/hello\<close> (lines 14 to 16).\<close>

definition get_hello :: outcome where
  "get_hello = json (JObj [(''message'', JStr ''Hello from API!'')])"

text \<open>
  \<^verbatim>\<open>GET /api/users/:id\<close> (lines 18 to 30). \<open>ident\<close> is \<^verbatim>\<open>req.params.id\<close>, a string.
  The handler logs the query text and answers with the first user whose id is loosely
  equal to the parameter, or with the error object; it never sets a status.
\<close>

definition query_text :: "string \<Rightarrow> string" where
  "query_text ident = ''SELECT * FROM users WHERE id = '' @ ident"

definition get_user_by_id_console :: "string \<Rightarrow> string" where
  "get_user_by_id_console ident = ''Executing query: '' @ query_text ident"

definition get_user_by_id :: "(string \<Rightarrow> jsnumber) \<Rightarrow> user list \<Rightarrow> string \<Rightarrow> outcome" where
  "get_user_by_id tn users ident =
     (case find (\<lambda>u. loose_eq tn (id' u) ident) users of
        Some u \<Rightarrow> json (user_obj u)
      | None \<Rightarrow> json (JObj [(''error'', JStr ''User not found'')]))"

text \<open>The same handler with \<^verbatim>\<open>===\<close> in place of \<^verbatim>\<open>==\<close>, for comparison.\<close>

definition get_user_by_id_strict :: "user list \<Rightarrow> string \<Rightarrow> outcome" where
  "get_user_by_id_strict users ident =
     (case find (\<lambda>u. strict_eq (id' u) ident) users of
        Some u \<Rightarrow> json (user_obj u)
      | None \<Rightarrow> json (JObj [(''error'', JStr ''User not found'')]))"

text \<open>
  \<^verbatim>\<open>POST /api/users\<close> (lines 32 to 44). \<open>req_body\<close> is the parsed JSON object of the
  request, as a map from its property names; a property the body lacks reads as
  \<^verbatim>\<open>undefined\<close>. The handler returns the array after the push and the response.
\<close>

definition field :: "(string \<rightharpoonup> jsval) \<Rightarrow> string \<Rightarrow> jsval" where
  "field req_body k = (case req_body k of Some v \<Rightarrow> v | None \<Rightarrow> JUndefined)"

definition new_user :: "user list \<Rightarrow> (string \<rightharpoonup> jsval) \<Rightarrow> user" where
  "new_user users req_body =
     \<lparr>id' = int (length users) + 1, name = field req_body ''name'',
      email = field req_body ''email'', password = field req_body ''password''\<rparr>"

definition post_users :: "user list \<Rightarrow> (string \<rightharpoonup> jsval) \<Rightarrow> user list \<times> outcome" where
  "post_users users req_body =
     (let newUser = new_user users req_body
      in (users @ [newUser], json (user_obj newUser)))"

text \<open>
  \<^verbatim>\<open>GET /api/file/:filename\<close> (lines 46 to 59). The file system is a parameter: what
  \<^verbatim>\<open>fs.readFileSync\<close> does on a path, returning the bytes or throwing an error object
  with a message, a stack and (for a failed system call on a path) that path.
\<close>

record js_error =
  message :: string
  stack :: string
  path :: "string option"

datatype read_result = Data string | Throws js_error

definition upload_path :: "string \<Rightarrow> string" where
  "upload_path filename = ''./uploads/'' @ filename"

definition get_file :: "(string \<Rightarrow> read_result) \<Rightarrow> string \<Rightarrow> outcome" where
  "get_file readFileSync filename =
     (case readFileSync (upload_path filename) of
        Data d \<Rightarrow> Responded \<lparr>status = 200, body = Raw d\<rparr>
      | Throws e \<Rightarrow>
          Responded \<lparr>status = 500,
            body = Json (JObj [(''error'', JStr (message e)), (''stack'', JStr (stack e)),
              (''path'', (case path e of Some p \<Rightarrow> JStr p | None \<Rightarrow> JUndefined))])\<rparr>)"

text \<open>
  \<^verbatim>\<open>GET /api/async-operation\<close> (lines 61 to 71). \<open>r\<close> is the value of
  \<^verbatim>\<open>Math.random()\<close>. The handler awaits with no \<^verbatim>\<open>try\<close> around it, so a rejection of
  \<^verbatim>\<open>someAsyncOperation\<close> rejects the handler before \<^verbatim>\<open>res.json\<close> is reached.
\<close>

definition someAsyncOperation :: "real \<Rightarrow> string + jsval" where
  "someAsyncOperation r =
     (if r > 0.5 then Inl ''Random service failure''
      else Inr (JObj [(''data'', JStr ''Success'')]))"

definition get_async_operation :: "real \<Rightarrow> outcome" where
  "get_async_operation r =
     (case someAsyncOperation r of Inl e \<Rightarrow> Rejected e | Inr result \<Rightarrow> json result)"

text \<open>\<^verbatim>\<open>GET /api/all-users\<close> (lines 73 to 75).\<close>

definition get_all_users :: "user list \<Rightarrow> outcome" where
  "get_all_users users = json (JArr (map user_obj users))"

text \<open>A run of \<^verbatim>\<open>POST /api/users\<close> requests, one after the other, with their responses.\<close>

fun run_posts :: "user list \<Rightarrow> (string \<rightharpoonup> jsval) list \<Rightarrow> user list \<times> outcome list" where
  "run_posts users [] = (users, [])"
| "run_posts users (b # bs) =
     (case post_users users b of
        (users', r) \<Rightarrow> (case run_posts users' bs of (users'', rs) \<Rightarrow> (users'', r # rs)))"

text \<open>The states of the array that \<^verbatim>\<open>POST /api/users\<close> requests alone can reach from the
  initial one.\<close>

definition reachable_by_posts :: "(string \<rightharpoonup> jsval) list \<Rightarrow> user list" where
  "reachable_by_posts bs = fst (run_posts initial_users bs)"

text \<open>The id a response to \<^verbatim>\<open>POST /api/users\<close> carries, if it carries one.\<close>

definition assigned_id :: "outcome \<Rightarrow> jsval" where
  "assigned_id out =
     (case out of
        Responded r \<Rightarrow> (case body r of Json v \<Rightarrow> get_prop v ''id'' | Raw _ \<Rightarrow> JUndefined)
      | Rejected _ \<Rightarrow> JUndefined)"

section \<open>What the client receives\<close>

text \<open>
  \<^verbatim>\<open>res.json v\<close> writes \<^verbatim>\<open>JSON.stringify v\<close>; the client's \<^verbatim>\<open>response.json()\<close> parses
  that text. Together: properties whose value is \<^verbatim>\<open>undefined\<close> are left out, and
  \<^verbatim>\<open>undefined\<close> inside an array becomes \<^verbatim>\<open>null\<close>.
\<close>

fun serialised :: "jsval \<Rightarrow> jsval" where
  "serialised (JObj kvs) =
     JObj (map (\<lambda>kv. (fst kv, serialised (snd kv))) (filter (\<lambda>kv. snd kv \<noteq> JUndefined) kvs))"
| "serialised (JArr xs) = JArr (map (\<lambda>x. if x = JUndefined then JNull else serialised x) xs)"
| "serialised v = v"

section \<open>The client application (src/client/src/App.jsx)\<close>

text \<open>
  A value held in a state variable: a primitive, or a reference to an array or object
  of the heap. \<^verbatim>\<open>Object.is\<close>, by which a state setter decides whether the state changed,
  is equality of these: two references are the same when they are the same address.
\<close>

datatype stateval = Prim jsval | Ref nat

text \<open>What the last render put on the screen: the counter, the loading line and, for
  each entry of the list, the \<^verbatim>\<open>user.name\<close> shown beside its own "Add User" button.\<close>

record view =
  shown_count :: int
  shown_loading :: bool
  shown_names :: "jsval list"

text \<open>
  The component: its three state variables (lines 7 to 9), the heap its references
  point into with the next unused address, and the screen. The screen is \<open>None\<close> once
  a render has thrown, which unmounts the component.
\<close>

record app =
  count :: int
  users :: stateval
  loading :: bool
  heap :: "nat \<rightharpoonup> jsval"
  fresh :: nat
  screen :: "view option"

text \<open>A value can be a child of an element unless it is, or holds, a plain object.\<close>

fun renderable :: "jsval \<Rightarrow> bool" where
  "renderable (JObj kvs) = False"
| "renderable (JArr xs) = list_all renderable xs"
| "renderable v = True"

text \<open>One entry of \<^verbatim>\<open>users.map\<close> (lines 62 to 72): reading \<^verbatim>\<open>user.name\<close> throws on
  \<^verbatim>\<open>null\<close> and \<^verbatim>\<open>undefined\<close>.\<close>

definition render_entry :: "jsval \<Rightarrow> jsval option" where
  "render_entry u =
     (if u = JNull \<or> u = JUndefined then None
      else if renderable (get_prop u ''name'') then Some (get_prop u ''name'') else None)"

fun render_entries :: "jsval list \<Rightarrow> jsval list option" where
  "render_entries [] = Some []"
| "render_entries (u # us) =
     (case render_entry u of
        None \<Rightarrow> None
      | Some n \<Rightarrow> (case render_entries us of None \<Rightarrow> None | Some ns \<Rightarrow> Some (n # ns)))"

text \<open>
  The render (lines 40 to 79), without the value of \<^verbatim>\<open>expensiveCalculation\<close>, a sum of
  random numbers. \<^verbatim>\<open>users.map\<close> exists on arrays only: for any other value of \<^verbatim>\<open>users\<close>
  the render throws.
\<close>

definition render :: "app \<Rightarrow> view option" where
  "render c =
     (case users c of
        Ref a \<Rightarrow>
          (case heap c a of
             Some (JArr us) \<Rightarrow>
               (case render_entries us of
                  Some ns \<Rightarrow>
                    Some \<lparr>shown_count = count c, shown_loading = loading c, shown_names = ns\<rparr>
                | None \<Rightarrow> None)
           | _ \<Rightarrow> None)
      | Prim _ \<Rightarrow> None)"

text \<open>
  After the state setters of one handler have run: the component renders again only if
  a state variable is no longer \<^verbatim>\<open>Object.is\<close>-equal to what it was. A setter handed
  the value the variable already holds changes nothing on the screen.
\<close>

definition rerender :: "app \<Rightarrow> app \<Rightarrow> app" where
  "rerender old new =
     (if count new = count old \<and> users new = users old \<and> loading new = loading old then new
      else (case screen new of None \<Rightarrow> new | Some _ \<Rightarrow> new\<lparr>screen := render new\<rparr>))"

text \<open>The component before its first render: \<^verbatim>\<open>useState(0)\<close>, \<^verbatim>\<open>useState([])\<close>,
  \<^verbatim>\<open>useState(false)\<close>; then the first render.\<close>

definition initial_state :: app where
  "initial_state =
     \<lparr>count = 0, users = Ref 0, loading = False, heap = [0 \<mapsto> JArr []], fresh = 1,
      screen = None\<rparr>"

definition first_render :: app where
  "first_render = initial_state\<lparr>screen := render initial_state\<rparr>"

text \<open>
  \<^verbatim>\<open>fetchUsers\<close> (lines 15 to 23) runs in two parts. Up to the first \<^verbatim>\<open>await\<close> it sets
  the loading flag and issues the request for \<open>fetch_url userId\<close>. When the request has
  settled it resumes: either \<^verbatim>\<open>fetch\<close> rejected, or \<^verbatim>\<open>response.json()\<close> rejected, or the
  body parsed to \<open>data\<close>, a new value, which is stored. The \<^verbatim>\<open>catch\<close> block is empty.
  \<^verbatim>\<open>setLoading(false)\<close> follows in every case.
\<close>

datatype fetch_result = Fetch_rejected | Json_rejected | Parsed jsval

definition fetch_url :: "int \<Rightarrow> string" where
  "fetch_url userId = ''/api/users/'' @ number_to_string userId"

definition fetchUsers_start :: "app \<Rightarrow> app" where
  "fetchUsers_start c = rerender c (c\<lparr>loading := True\<rparr>)"

definition setUsers_new :: "jsval \<Rightarrow> app \<Rightarrow> app" where
  "setUsers_new data c =
     (case data of
        JArr _ \<Rightarrow> c\<lparr>users := Ref (fresh c), heap := (heap c)(fresh c \<mapsto> data), fresh := fresh c + 1\<rparr>
      | JObj _ \<Rightarrow> c\<lparr>users := Ref (fresh c), heap := (heap c)(fresh c \<mapsto> data), fresh := fresh c + 1\<rparr>
      | _ \<Rightarrow> c\<lparr>users := Prim data\<rparr>)"

definition fetchUsers_settle :: "fetch_result \<Rightarrow> app \<Rightarrow> app" where
  "fetchUsers_settle r c =
     rerender c
       ((case r of
           Parsed data \<Rightarrow> setUsers_new data c
         | Fetch_rejected \<Rightarrow> c
         | Json_rejected \<Rightarrow> c)\<lparr>loading := False\<rparr>)"

text \<open>The mount effect (lines 11 to 13): \<^verbatim>\<open>fetchUsers(count)\<close> after the first render.
  The result is the state and the URL requested.\<close>

definition mount :: "app \<times> string" where
  "mount = (fetchUsers_start first_render, fetch_url (count first_render))"

text \<open>
  \<^verbatim>\<open>addUser\<close> (lines 25 to 28): \<^verbatim>\<open>users.push(newUser)\<close> changes the array in the heap;
  \<^verbatim>\<open>setUsers(users)\<close> hands the setter the reference the state already holds. On a
  value that is not an array \<^verbatim>\<open>push\<close> throws and nothing changes.
\<close>

definition addUser :: "jsval \<Rightarrow> app \<Rightarrow> app" where
  "addUser newUser c =
     (case users c of
        Ref a \<Rightarrow>
          (case heap c a of
             Some (JArr us) \<Rightarrow>
               rerender c (c\<lparr>heap := (heap c)(a \<mapsto> JArr (us @ [newUser])), users := Ref a\<rparr>)
           | _ \<Rightarrow> c)
      | Prim _ \<Rightarrow> c)"

text \<open>
  The events of the page. A click on the "Add User" button of entry \<open>i\<close> (line 67)
  needs that entry on the screen; \<open>now\<close> is the value of \<^verbatim>\<open>Date.now()\<close>. A click on the
  counter (line 52) adds one to \<^verbatim>\<open>count\<close>.
\<close>

definition click_add_user :: "nat \<Rightarrow> int \<Rightarrow> app \<Rightarrow> app" where
  "click_add_user i now c =
     (case screen c of
        Some v \<Rightarrow>
          if i < length (shown_names v)
          then addUser (JObj [(''id'', JNum (of_int now)), (''name'', JStr ''New User'')]) c
          else c
      | None \<Rightarrow> c)"

definition click_count :: "app \<Rightarrow> app" where
  "click_count c =
     (case screen c of Some v \<Rightarrow> rerender c (c\<lparr>count := count c + 1\<rparr>) | None \<Rightarrow> c)"

datatype event = Click_count | Click_add_user nat int

fun handle :: "event \<Rightarrow> app \<Rightarrow> app" where
  "handle Click_count c = click_count c"
| "handle (Click_add_user i now) c = click_add_user i now c"

fun run_events :: "event list \<Rightarrow> app \<Rightarrow> app" where
  "run_events [] c = c"
| "run_events (e # es) c = run_events es (handle e c)"

text \<open>The list of users on the screen; nothing is on the screen after a failed render.\<close>

definition rendered_list :: "app \<Rightarrow> jsval list" where
  "rendered_list c = (case screen c of Some v \<Rightarrow> shown_names v | None \<Rightarrow> [])"

text \<open>The value the \<^verbatim>\<open>users\<close> state variable stands for.\<close>

definition users_value :: "app \<Rightarrow> jsval option" where
  "users_value c = (case users c of Ref a \<Rightarrow> heap c a | Prim v \<Rightarrow> Some v)"

definition is_array :: "jsval option \<Rightarrow> bool" where
  "is_array v = (case v of Some (JArr _) \<Rightarrow> True | _ \<Rightarrow> False)"

section \<open>Concrete inputs\<close>

text \<open>
  The error Node raises when the file to open does not exist, with the first line of
  its stack, and a file system on which no file exists.
\<close>

definition enoent :: "string \<Rightarrow> js_error" where
  "enoent p =
     \<lparr>message = ''ENOENT: no such file or directory, open '' @ [CHR 0x27] @ p @ [CHR 0x27],
      stack = ''Error: ENOENT: no such file or directory, open '' @ [CHR 0x27] @ p @ [CHR 0x27],
      path = Some p\<rparr>"

definition no_files :: "string \<Rightarrow> read_result" where
  "no_files p = Throws (enoent p)"

text \<open>
  A state of the page with one user on the screen: the mount, then the request settled
  with a body that parsed to an array of one user.
\<close>

definition one_user_loaded :: app where
  "one_user_loaded =
     fetchUsers_settle
       (Parsed (JArr [JObj [(''id'', JNum 1), (''name'', JStr ''John'')]])) (fst mount)"

section \<open>Facts about the API service\<close>

lemma digit_val_digit_char: "d < 10 \<Longrightarrow> digit_val (digit_char d) = Some d"
proof -
  assume "d < 10"
  then have "d \<in> {0, 1, 2, 3, 4, 5, 6, 7, 8, 9}" by auto
  then show ?thesis
    by (auto simp: digit_val_def digit_char_def)
qed

lemma digit_char_not_sign: "d < 10 \<Longrightarrow> digit_char d \<noteq> CHR ''-'' \<and> digit_char d \<noteq> CHR ''+''"
proof -
  assume "d < 10"
  then have "d \<in> {0, 1, 2, 3, 4, 5, 6, 7, 8, 9}" by auto
  then show ?thesis
    by (auto simp: digit_char_def)
qed

lemma digits_value_snoc:
  "d < 10 \<Longrightarrow>
   digits_value acc (xs @ [digit_char d]) = map_option (\<lambda>v. 10 * v + d) (digits_value acc xs)"
  by (induction xs arbitrary: acc) (auto simp: digit_val_digit_char split: option.splits)

lemma digits_value_dec_digits: "digits_value 0 (dec_digits n) = Some n"
proof (induction n rule: dec_digits.induct)
  case (1 n)
  show ?case
  proof (cases "n < 10")
    case True
    then show ?thesis by (simp add: digit_val_digit_char)
  next
    case False
    with 1 have "digits_value 0 (dec_digits (n div 10)) = Some (n div 10)" by simp
    with False show ?thesis
      by (subst dec_digits.simps) (simp add: digits_value_snoc)
  qed
qed

lemma dec_digits_nonempty: "dec_digits n \<noteq> []"
  by (subst dec_digits.simps) simp

lemma dec_digits_hd: "\<exists>d < 10. hd (dec_digits n) = digit_char d"
proof (induction n rule: dec_digits.induct)
  case (1 n)
  show ?case
  proof (cases "n < 10")
    case True
    then show ?thesis by auto
  next
    case False
    with 1 have "\<exists>d < 10. hd (dec_digits (n div 10)) = digit_char d" by simp
    with False show ?thesis
      by (subst dec_digits.simps) (simp add: dec_digits_nonempty)
  qed
qed

lemma StrIntegerLiteral_number_to_string: "StrIntegerLiteral (number_to_string n) = Some n"
proof (cases "n < 0")
  case True
  have "StrDecimalDigits (dec_digits (nat (- n))) = Some (nat (- n))"
    by (simp only: StrDecimalDigits_def dec_digits_nonempty digits_value_dec_digits if_False)
  then have "StrIntegerLiteral (CHR ''-'' # dec_digits (nat (- n))) = Some (- int (nat (- n)))"
    by (simp add: StrIntegerLiteral_def)
  with True show ?thesis
    by (simp add: number_to_string_def)
next
  case False
  obtain c cs where s: "dec_digits (nat n) = c # cs"
    using dec_digits_nonempty [of "nat n"] by (cases "dec_digits (nat n)") auto
  from dec_digits_hd [of "nat n"] s obtain d where "d < 10" "c = digit_char d" by auto
  then have "c \<noteq> CHR ''-''" "c \<noteq> CHR ''+''"
    using digit_char_not_sign by auto
  moreover have "StrDecimalDigits (c # cs) = Some (nat n)"
    using digits_value_dec_digits [of "nat n"] s by (simp add: StrDecimalDigits_def)
  ultimately show ?thesis
    using False s by (simp add: StrIntegerLiteral_def number_to_string_def)
qed

lemma conforms_ToNumber_integers: "conforms ToNumber_integers"
  by (simp add: conforms_def ToNumber_integers_def)

lemma loose_eq_number_to_string:
  assumes "conforms tn" and "\<bar>n\<bar> \<le> 2 ^ 53"
  shows "loose_eq tn m (number_to_string n) = (m = n)"
proof -
  from assms have "tn (number_to_string n) = Integer n"
    using StrIntegerLiteral_number_to_string [of n] by (simp add: conforms_def)
  then show ?thesis by (auto simp: loose_eq_def)
qed

lemma find_None_iff': "(find P xs = None) = (\<forall>x\<in>set xs. \<not> P x)"
  by (induction xs) auto

lemma find_Some_first: "\<exists>x\<in>set xs. P x \<Longrightarrow> \<exists>x. find P xs = Some x \<and> x \<in> set xs \<and> P x"
  by (induction xs) auto

text \<open>
  C1. \<^verbatim>\<open>GET /api/users/:id\<close>: when some user of the array matches the parameter, the
  response is that user's record, password included, the first match in the array; when
  none matches, it is the error object. The status is 200 in both cases, never 404.
\<close>

theorem get_user_by_id_status_200:
  "((\<exists>u\<in>set us. loose_eq tn (id' u) ident) \<longrightarrow>
      (\<exists>u. find (\<lambda>u. loose_eq tn (id' u) ident) us = Some u \<and> u \<in> set us
         \<and> loose_eq tn (id' u) ident
         \<and> get_user_by_id tn us ident = Responded \<lparr>status = 200, body = Json (user_obj u)\<rparr>
         \<and> get_prop (user_obj u) ''password'' = password u))
   \<and> ((\<forall>u\<in>set us. \<not> loose_eq tn (id' u) ident) \<longrightarrow>
        get_user_by_id tn us ident =
          Responded \<lparr>status = 200, body = Json (JObj [(''error'', JStr ''User not found'')])\<rparr>)
   \<and> (\<exists>r. get_user_by_id tn us ident = Responded r \<and> status r = 200 \<and> status r \<noteq> 404)"
proof (intro conjI impI)
  assume "\<exists>u\<in>set us. loose_eq tn (id' u) ident"
  then obtain u where u: "find (\<lambda>u. loose_eq tn (id' u) ident) us = Some u"
      "u \<in> set us" "loose_eq tn (id' u) ident"
    using find_Some_first [of us "\<lambda>u. loose_eq tn (id' u) ident"] by blast
  then show "\<exists>u. find (\<lambda>u. loose_eq tn (id' u) ident) us = Some u \<and> u \<in> set us
         \<and> loose_eq tn (id' u) ident
         \<and> get_user_by_id tn us ident = Responded \<lparr>status = 200, body = Json (user_obj u)\<rparr>
         \<and> get_prop (user_obj u) ''password'' = password u"
    by (simp add: get_user_by_id_def json_def user_obj_def get_prop_def)
next
  assume "\<forall>u\<in>set us. \<not> loose_eq tn (id' u) ident"
  then have "find (\<lambda>u. loose_eq tn (id' u) ident) us = None"
    by (simp add: find_None_iff')
  then show "get_user_by_id tn us ident =
          Responded \<lparr>status = 200, body = Json (JObj [(''error'', JStr ''User not found'')])\<rparr>"
    by (simp add: get_user_by_id_def json_def)
next
  show "\<exists>r. get_user_by_id tn us ident = Responded r \<and> status r = 200 \<and> status r \<noteq> 404"
    by (simp add: get_user_by_id_def json_def split: option.splits)
qed

text \<open>The same at the initial array: a request for \<^verbatim>\<open>2\<close> and one for \<^verbatim>\<open>7\<close>.\<close>

theorem get_user_by_id_status_200_witness:
  "get_user_by_id ToNumber_integers initial_users ''2'' =
     Responded \<lparr>status = 200, body = Json (JObj [(''id'', JNum 2), (''name'', JStr ''Jane''),
       (''email'', JStr ''jane@test.com''), (''password'', JStr ''admin'')])\<rparr>
   \<and> get_user_by_id ToNumber_integers initial_users ''7'' =
     Responded \<lparr>status = 200, body = Json (JObj [(''error'', JStr ''User not found'')])\<rparr>"
proof -
  have hit: "\<exists>u\<in>set initial_users. loose_eq ToNumber_integers (id' u) ''2''"
    by (simp add: initial_users_def loose_eq_def ToNumber_integers_def StrIntegerLiteral_def
        StrDecimalDigits_def digit_val_def)
  have miss: "\<forall>u\<in>set initial_users. \<not> loose_eq ToNumber_integers (id' u) ''7''"
    by (simp add: initial_users_def loose_eq_def ToNumber_integers_def StrIntegerLiteral_def
        StrDecimalDigits_def digit_val_def)
  have first: "find (\<lambda>u. loose_eq ToNumber_integers (id' u) ''2'') initial_users = Some (initial_users ! 1)"
    by (simp add: initial_users_def loose_eq_def ToNumber_integers_def StrIntegerLiteral_def
        StrDecimalDigits_def digit_val_def)
  from get_user_by_id_status_200 [of initial_users ToNumber_integers "''2''"] hit first
  have "get_user_by_id ToNumber_integers initial_users ''2'' =
      Responded \<lparr>status = 200, body = Json (user_obj (initial_users ! 1))\<rparr>"
    by auto
  moreover from get_user_by_id_status_200 [of initial_users ToNumber_integers "''7''"] miss
  have "get_user_by_id ToNumber_integers initial_users ''7'' =
     Responded \<lparr>status = 200, body = Json (JObj [(''error'', JStr ''User not found'')])\<rparr>"
    by blast
  ultimately show ?thesis
    by (simp add: initial_users_def user_obj_def)
qed

text \<open>
  C2. \<^verbatim>\<open>POST /api/users\<close>: whatever the array and the body are, the handler appends one
  record whose id is the length of the array plus one and whose name, email and
  password are the body's, as they are, and answers with that record.
\<close>

theorem post_users_appends_unchecked:
  "\<exists>newUser.
     post_users us req_body =
       (us @ [newUser], Responded \<lparr>status = 200, body = Json (user_obj newUser)\<rparr>)
     \<and> id' newUser = int (length us) + 1
     \<and> name newUser = (case req_body ''name'' of Some v \<Rightarrow> v | None \<Rightarrow> JUndefined)
     \<and> email newUser = (case req_body ''email'' of Some v \<Rightarrow> v | None \<Rightarrow> JUndefined)
     \<and> password newUser = (case req_body ''password'' of Some v \<Rightarrow> v | None \<Rightarrow> JUndefined)"
  by (simp add: post_users_def new_user_def field_def json_def Let_def)

text \<open>
  C7. \<^verbatim>\<open>POST /api/users\<close> and then \<^verbatim>\<open>GET /api/all-users\<close>: the array in the response is
  the array of before with the created record at its end, one element longer.
\<close>

theorem post_then_all_users:
  "\<exists>old created.
     get_all_users us = Responded \<lparr>status = 200, body = Json (JArr old)\<rparr>
     \<and> snd (post_users us req_body) = Responded \<lparr>status = 200, body = Json created\<rparr>
     \<and> get_all_users (fst (post_users us req_body)) =
         Responded \<lparr>status = 200, body = Json (JArr (old @ [created]))\<rparr>
     \<and> length (old @ [created]) = length old + 1
     \<and> length old = length us"
  by (simp add: post_users_def get_all_users_def json_def Let_def)

text \<open>
  C4. \<^verbatim>\<open>GET /api/async-operation\<close>: exactly one of two outcomes, decided by the random
  number. Either the handler answers with the success object, or \<^verbatim>\<open>someAsyncOperation\<close>
  throws, nothing catches it, and the handler produces no response.
\<close>

theorem async_operation_two_outcomes:
  "(get_async_operation r = Responded \<lparr>status = 200, body = Json (JObj [(''data'', JStr ''Success'')])\<rparr>
      \<or> get_async_operation r = Rejected ''Random service failure'')
   \<and> (get_async_operation r = Rejected ''Random service failure'') = (r > 0.5)
   \<and> (get_async_operation r = Responded \<lparr>status = 200, body = Json (JObj [(''data'', JStr ''Success'')])\<rparr>)
       = (r \<le> 0.5)
   \<and> (someAsyncOperation r = Inl ''Random service failure'') = (r > 0.5)
   \<and> (\<exists>resp. get_async_operation r = Responded resp) = (r \<le> 0.5)"
  by (auto simp: get_async_operation_def someAsyncOperation_def json_def)

text \<open>
  C5. \<^verbatim>\<open>GET /api/file/:filename\<close> for a file that does not exist: the handler reads no
  mode, and its answer carries the path of the file system, with the message and the
  stack of the error.
\<close>

theorem get_file_missing_leaks_path:
  "get_file no_files ''secret.txt'' =
     Responded \<lparr>status = 500,
       body = Json (JObj
         [(''error'', JStr (message (enoent ''./uploads/secret.txt''))),
          (''stack'', JStr (stack (enoent ''./uploads/secret.txt''))),
          (''path'', JStr ''./uploads/secret.txt'')])\<rparr>"
  by (simp add: get_file_def no_files_def upload_path_def enoent_def)

lemma fst_run_posts_Cons:
  "fst (run_posts us (b # bs)) = fst (run_posts (us @ [new_user us b]) bs)"
  by (simp add: post_users_def Let_def split: prod.splits)

lemma snd_run_posts_Cons:
  "snd (run_posts us (b # bs)) =
     json (user_obj (new_user us b)) # snd (run_posts (us @ [new_user us b]) bs)"
  by (simp add: post_users_def Let_def split: prod.splits)

lemma assigned_id_json_user: "assigned_id (json (user_obj u)) = JNum (of_int (id' u))"
  by (simp add: assigned_id_def json_def user_obj_def get_prop_def)

lemma run_posts_shape:
  "\<exists>ys. fst (run_posts us bs) = us @ ys \<and> length ys = length bs
     \<and> map assigned_id (snd (run_posts us bs)) = map (\<lambda>u. JNum (of_int (id' u))) ys
     \<and> (\<forall>k<length ys. id' (ys ! k) = int (length us + k) + 1)"
proof (induction bs arbitrary: us)
  case Nil
  then show ?case by simp
next
  case (Cons b bs)
  let ?nu = "new_user us b"
  from Cons.IH [of "us @ [?nu]"] obtain ys where
    ys: "fst (run_posts (us @ [?nu]) bs) = (us @ [?nu]) @ ys" "length ys = length bs"
      "map assigned_id (snd (run_posts (us @ [?nu]) bs)) = map (\<lambda>u. JNum (of_int (id' u))) ys"
      "\<forall>k<length ys. id' (ys ! k) = int (length (us @ [?nu]) + k) + 1"
    by blast
  have ids: "\<forall>k<length (?nu # ys). id' ((?nu # ys) ! k) = int (length us + k) + 1"
  proof (intro allI impI)
    fix k
    assume "k < length (?nu # ys)"
    then show "id' ((?nu # ys) ! k) = int (length us + k) + 1"
      using ys(4) by (cases k) (simp_all add: new_user_def)
  qed
  have "fst (run_posts us (b # bs)) = us @ (?nu # ys)"
    using ys(1) by (simp only: fst_run_posts_Cons append_assoc append_Cons append_Nil)
  moreover have "length (?nu # ys) = length (b # bs)"
    using ys(2) by simp
  moreover have "map assigned_id (snd (run_posts us (b # bs))) =
      map (\<lambda>u. JNum (of_int (id' u))) (?nu # ys)"
    using ys(3) by (simp only: snd_run_posts_Cons assigned_id_json_user list.map)
  ultimately show ?case
    using ids by blast
qed

lemma initial_users_ids: "\<forall>i<length initial_users. id' (initial_users ! i) = int i + 1"
proof (intro allI impI)
  fix i
  assume "i < length initial_users"
  then have "i = 0 \<or> i = 1"
    by (auto simp: initial_users_def)
  then show "id' (initial_users ! i) = int i + 1"
    by (auto simp: initial_users_def)
qed

lemma append_numbered:
  assumes "\<forall>i<length xs. id' (xs ! i) = int i + 1"
    and "\<forall>k<length ys. id' (ys ! k) = int (length xs + k) + 1"
  shows "\<forall>i<length (xs @ ys). id' ((xs @ ys) ! i) = int i + 1"
proof (intro allI impI)
  fix i
  assume i: "i < length (xs @ ys)"
  show "id' ((xs @ ys) ! i) = int i + 1"
  proof (cases "i < length xs")
    case True
    with assms(1) show ?thesis by (simp add: nth_append)
  next
    case False
    with i have "i - length xs < length ys" by simp
    with assms(2) have "id' (ys ! (i - length xs)) = int (length xs + (i - length xs)) + 1"
      by blast
    with False show ?thesis by (simp add: nth_append)
  qed
qed

lemma numbered_sorted_distinct:
  assumes "\<forall>i<length xs. id' (xs ! i) = int i + 1"
  shows "sorted_wrt (<) (map id' xs) \<and> distinct (map id' xs)"
proof
  show "sorted_wrt (<) (map id' xs)"
    using assms by (simp add: sorted_wrt_iff_nth_less)
  show "distinct (map id' xs)"
    using assms by (simp add: distinct_conv_nth)
qed

lemma reachable_numbered:
  "\<forall>i<length (reachable_by_posts bs). id' (reachable_by_posts bs ! i) = int i + 1"
proof -
  from run_posts_shape [of initial_users bs] obtain ys where
    "reachable_by_posts bs = initial_users @ ys"
    "\<forall>k<length ys. id' (ys ! k) = int (length initial_users + k) + 1"
    unfolding reachable_by_posts_def by blast
  then show ?thesis
    using append_numbered [OF initial_users_ids, of ys] by simp
qed

text \<open>
  C6. \<^verbatim>\<open>POST /api/users\<close> requests one after the other, from a state that such requests
  reached from the initial array: the ids in the responses are those of the records
  appended, in order; the ids of the array are strictly increasing, so each request
  gets an id greater than the one before; and no two ids of the array are equal.
\<close>

theorem sequential_posts_increasing_unique_ids:
  "map assigned_id (snd (run_posts (reachable_by_posts bs1) bs2)) =
     map (\<lambda>i. JNum (of_int i))
       (drop (length (reachable_by_posts bs1))
         (map id' (fst (run_posts (reachable_by_posts bs1) bs2))))
   \<and> length (snd (run_posts (reachable_by_posts bs1) bs2)) = length bs2
   \<and> sorted_wrt (<) (map id' (fst (run_posts (reachable_by_posts bs1) bs2)))
   \<and> distinct (map id' (fst (run_posts (reachable_by_posts bs1) bs2)))"
proof -
  let ?s = "reachable_by_posts bs1"
  from run_posts_shape [of ?s bs2] obtain ys where
    ys: "fst (run_posts ?s bs2) = ?s @ ys" "length ys = length bs2"
      "map assigned_id (snd (run_posts ?s bs2)) = map (\<lambda>u. JNum (of_int (id' u))) ys"
      "\<forall>k<length ys. id' (ys ! k) = int (length ?s + k) + 1"
    by blast
  have "\<forall>i<length (?s @ ys). id' ((?s @ ys) ! i) = int i + 1"
    using append_numbered [OF reachable_numbered ys(4)] .
  then have "sorted_wrt (<) (map id' (?s @ ys)) \<and> distinct (map id' (?s @ ys))"
    by (rule numbered_sorted_distinct)
  moreover have "length (snd (run_posts ?s bs2)) = length bs2"
    using arg_cong [OF ys(3), of length] ys(2) by simp
  moreover have "map assigned_id (snd (run_posts ?s bs2)) =
      map (\<lambda>i. JNum (of_int i)) (drop (length ?s) (map id' (?s @ ys)))"
    using ys(3) by (simp add: comp_def)
  ultimately show ?thesis
    by (simp only: ys(1) simp_thms)
qed

text \<open>
  C10. The lookup compares the stored number with the string parameter by \<^verbatim>\<open>==\<close>, which
  converts the string. For every user of the array (its id a safe integer), the request
  with the decimal text of its id is answered with the first user of the array that has
  this id. With \<^verbatim>\<open>===\<close> no record matches any parameter.
\<close>

theorem loose_lookup_by_decimal_id:
  assumes "conforms tn" and "u \<in> set us" and "\<bar>id' u\<bar> \<le> 2 ^ 53"
  shows "\<exists>w. find (\<lambda>v. id' v = id' u) us = Some w
     \<and> find (\<lambda>v. loose_eq tn (id' v) (number_to_string (id' u))) us = Some w
     \<and> get_user_by_id tn us (number_to_string (id' u)) =
         Responded \<lparr>status = 200, body = Json (user_obj w)\<rparr>
     \<and> find (\<lambda>v. strict_eq (id' v) ident) us = None
     \<and> get_user_by_id_strict us ident =
         Responded \<lparr>status = 200, body = Json (JObj [(''error'', JStr ''User not found'')])\<rparr>"
proof -
  from assms(2) obtain w where w: "find (\<lambda>v. id' v = id' u) us = Some w"
    using find_Some_first [of us "\<lambda>v. id' v = id' u"] by blast
  from assms(3) have eq: "\<And>v. loose_eq tn (id' v) (number_to_string (id' u)) = (id' v = id' u)"
    using assms(1) by (simp add: loose_eq_number_to_string)
  have same: "find (\<lambda>v. loose_eq tn (id' v) (number_to_string (id' u))) us = Some w"
    by (simp only: eq w)
  have strict: "find (\<lambda>v. strict_eq (id' v) ident) us = None"
    by (simp add: find_None_iff' strict_eq_def)
  from w same strict show ?thesis
    by (simp add: get_user_by_id_def get_user_by_id_strict_def json_def)
qed

text \<open>The same at the initial array, for the user with id 2.\<close>

theorem loose_lookup_by_decimal_id_witness:
  "number_to_string 2 = ''2''
   \<and> get_user_by_id ToNumber_integers initial_users ''2'' =
     Responded \<lparr>status = 200, body = Json (JObj [(''id'', JNum 2), (''name'', JStr ''Jane''),
       (''email'', JStr ''jane@test.com''), (''password'', JStr ''admin'')])\<rparr>
   \<and> get_user_by_id_strict initial_users ''2'' =
     Responded \<lparr>status = 200, body = Json (JObj [(''error'', JStr ''User not found'')])\<rparr>"
proof -
  let ?jane = "\<lparr>id' = 2, name = JStr ''Jane'', email = JStr ''jane@test.com'',
       password = JStr ''admin''\<rparr>"
  have mem: "?jane \<in> set initial_users"
    by (simp add: initial_users_def)
  have safe: "\<bar>id' ?jane\<bar> \<le> 2 ^ 53"
    by simp
  have str: "number_to_string 2 = ''2''"
    by (simp add: number_to_string_def dec_digits.simps digit_char_def)
  have first: "find (\<lambda>v. id' v = id' ?jane) initial_users = Some ?jane"
    by (simp add: initial_users_def)
  from loose_lookup_by_decimal_id [OF conforms_ToNumber_integers mem safe, of "''2''"] first str
  show ?thesis
    by (simp add: user_obj_def)
qed

section \<open>Facts about the client application\<close>

lemma rerender_vars:
  "count (rerender a b) = count b" "users (rerender a b) = users b"
  "loading (rerender a b) = loading b" "heap (rerender a b) = heap b"
  "fresh (rerender a b) = fresh b"
  by (simp_all add: rerender_def split: option.splits)

lemma loading_addUser: "loading (addUser newUser c) = loading c"
  by (simp add: addUser_def rerender_vars split: stateval.splits option.splits jsval.splits)

lemma loading_handle: "loading (handle e c) = loading c"
  by (cases e)
    (simp_all add: click_count_def click_add_user_def loading_addUser rerender_vars
      split: option.splits)

lemma loading_run_events: "loading (run_events es c) = loading c"
  by (induction es arbitrary: c) (simp_all add: loading_handle)

text \<open>
  C8. \<^verbatim>\<open>fetchUsers\<close>: the loading flag is false before the call, true from the start of
  the request, through any clicks, until the request settles, and false from then on,
  whether the body parsed, \<^verbatim>\<open>fetch\<close> rejected or \<^verbatim>\<open>response.json()\<close> rejected. A rejection
  is swallowed: it leaves \<^verbatim>\<open>users\<close> as it was.
\<close>

theorem fetchUsers_loading_flag:
  "\<not> loading first_render
   \<and> fst mount = fetchUsers_start first_render
   \<and> loading (fetchUsers_start c)
   \<and> loading (run_events es (fetchUsers_start c))
   \<and> \<not> loading (fetchUsers_settle r (run_events es (fetchUsers_start c)))
   \<and> \<not> loading (run_events es' (fetchUsers_settle r (run_events es (fetchUsers_start c))))
   \<and> users (fetchUsers_settle Fetch_rejected c) = users c
   \<and> users (fetchUsers_settle Json_rejected c) = users c"
  by (simp add: first_render_def initial_state_def mount_def fetchUsers_start_def
      fetchUsers_settle_def loading_run_events rerender_vars)

lemma users_value_rerender: "users_value (rerender a b) = users_value b"
  by (simp add: users_value_def rerender_vars split: stateval.splits)

lemma users_value_settle_object:
  "users_value (fetchUsers_settle (Parsed (JObj kvs)) c) = Some (JObj kvs)"
proof -
  have "users_value (fetchUsers_settle (Parsed (JObj kvs)) c) =
      users_value ((setUsers_new (JObj kvs) c)\<lparr>loading := False\<rparr>)"
    by (simp add: fetchUsers_settle_def users_value_rerender)
  also have "\<dots> = Some (JObj kvs)"
    by (simp add: setUsers_new_def users_value_def)
  finally show ?thesis .
qed

lemma conforms_zero: "conforms tn \<Longrightarrow> tn ''0'' = Integer 0"
proof -
  assume "conforms tn"
  moreover have "StrIntegerLiteral ''0'' = Some 0"
    by (simp add: StrIntegerLiteral_def StrDecimalDigits_def digit_val_def)
  ultimately show ?thesis
    unfolding conforms_def by fastforce
qed

text \<open>
  C9. On mount the client asks for \<^verbatim>\<open>/api/users/0\<close>, the counter's initial value being
  the user id. The initial array has no user with id 0, so the server answers with the
  error object, which reaches the client unchanged; the client stores it, and the
  \<^verbatim>\<open>users\<close> state is then an object, not an array of users.
\<close>

theorem mount_stores_error_object:
  assumes "conforms tn"
  shows "count first_render = 0
   \<and> snd mount = ''/api/users/0''
   \<and> get_user_by_id tn initial_users ''0'' =
       Responded \<lparr>status = 200, body = Json (JObj [(''error'', JStr ''User not found'')])\<rparr>
   \<and> serialised (JObj [(''error'', JStr ''User not found'')]) =
       JObj [(''error'', JStr ''User not found'')]
   \<and> users_value (fetchUsers_settle (Parsed (JObj [(''error'', JStr ''User not found'')]))
         (run_events es (fst mount))) = Some (JObj [(''error'', JStr ''User not found'')])
   \<and> \<not> is_array (users_value (fetchUsers_settle
         (Parsed (JObj [(''error'', JStr ''User not found'')])) (run_events es (fst mount))))"
proof -
  have "count first_render = 0"
    by (simp add: first_render_def initial_state_def)
  moreover have "snd mount = ''/api/users/0''"
    by (simp add: mount_def first_render_def initial_state_def fetch_url_def
        number_to_string_def dec_digits.simps digit_char_def)
  moreover have "get_user_by_id tn initial_users ''0'' =
       Responded \<lparr>status = 200, body = Json (JObj [(''error'', JStr ''User not found'')])\<rparr>"
    using conforms_zero [OF assms]
    by (simp add: get_user_by_id_def initial_users_def loose_eq_def json_def)
  moreover have "serialised (JObj [(''error'', JStr ''User not found'')]) =
       JObj [(''error'', JStr ''User not found'')]"
    by simp
  ultimately show ?thesis
    by (simp add: users_value_settle_object is_array_def)
qed

text \<open>The same with the conversion that knows the decimal integers, and no click
  before the request settles.\<close>

theorem mount_stores_error_object_witness:
  "get_user_by_id ToNumber_integers initial_users ''0'' =
       Responded \<lparr>status = 200, body = Json (JObj [(''error'', JStr ''User not found'')])\<rparr>
   \<and> users_value (fetchUsers_settle (Parsed (JObj [(''error'', JStr ''User not found'')]))
         (fst mount)) = Some (JObj [(''error'', JStr ''User not found'')])
   \<and> \<not> is_array (users_value (fetchUsers_settle
         (Parsed (JObj [(''error'', JStr ''User not found'')])) (fst mount)))"
  using mount_stores_error_object [OF conforms_ToNumber_integers, of "[]"]
  by (simp add: is_array_def)

lemma screen_addUser: "screen (addUser newUser c) = screen c"
  by (simp add: addUser_def rerender_def split: stateval.splits option.splits jsval.splits)

lemma screen_click_add_user: "screen (click_add_user i now c) = screen c"
  by (simp add: click_add_user_def screen_addUser split: option.splits)

lemma one_user_loaded_eq:
  "one_user_loaded =
     \<lparr>count = 0, users = Ref 1, loading = False,
      heap = [0 \<mapsto> JArr [], 1 \<mapsto> JArr [JObj [(''id'', JNum 1), (''name'', JStr ''John'')]]],
      fresh = 2,
      screen = Some \<lparr>shown_count = 0, shown_loading = False, shown_names = [JStr ''John'']\<rparr>\<rparr>"
  by (simp add: one_user_loaded_def mount_def fetchUsers_settle_def fetchUsers_start_def
      first_render_def initial_state_def setUsers_new_def rerender_def render_def
      render_entry_def get_prop_def)

text \<open>
  C3. A click on "Add User" with one user on the screen: the array in the heap gets the
  new user, but the setter is handed the reference the state already holds, so nothing
  renders and the list on the screen keeps its one entry. The new entry shows only
  when something else, here a click on the counter, makes the component render.
\<close>

theorem add_user_click_leaves_rendered_list:
  "rendered_list one_user_loaded = [JStr ''John'']
   \<and> rendered_list (click_add_user 0 1700000000000 one_user_loaded) = [JStr ''John'']
   \<and> length (rendered_list (click_add_user 0 1700000000000 one_user_loaded)) =
       length (rendered_list one_user_loaded)
   \<and> users_value (click_add_user 0 1700000000000 one_user_loaded) =
       Some (JArr [JObj [(''id'', JNum 1), (''name'', JStr ''John'')],
                   JObj [(''id'', JNum 1700000000000), (''name'', JStr ''New User'')]])
   \<and> rendered_list (click_count (click_add_user 0 1700000000000 one_user_loaded)) =
       [JStr ''John'', JStr ''New User'']"
proof -
  have shown: "rendered_list one_user_loaded = [JStr ''John'']"
    by (simp add: rendered_list_def one_user_loaded_eq)
  have after: "click_add_user 0 1700000000000 one_user_loaded =
     \<lparr>count = 0, users = Ref 1, loading = False,
      heap = [0 \<mapsto> JArr [], 1 \<mapsto> JArr [JObj [(''id'', JNum 1), (''name'', JStr ''John'')],
         JObj [(''id'', JNum 1700000000000), (''name'', JStr ''New User'')]]],
      fresh = 2,
      screen = Some \<lparr>shown_count = 0, shown_loading = False, shown_names = [JStr ''John'']\<rparr>\<rparr>"
    by (simp add: one_user_loaded_eq click_add_user_def addUser_def rerender_def)
  have later: "rendered_list (click_count (click_add_user 0 1700000000000 one_user_loaded)) =
       [JStr ''John'', JStr ''New User'']"
    by (simp add: after click_count_def rerender_def render_def render_entry_def get_prop_def
        rendered_list_def)
  from shown later show ?thesis
    by (simp add: after rendered_list_def users_value_def)
qed

end
